theory Spec2Isabelle
  imports Main "HOL-Library.Word" "HOL-Library.AList"
begin

unbundle bit_operations_syntax

section \<open>The MySQLCluster reconciler of MOCO\<close>

text \<open>
  A shallow embedding of \<^verbatim>\<open>controllers/mysqlcluster_controller.go\<close>. Every reconcile
  function takes the state of the API server (a \<open>world\<close>) and returns the new state
  together with its Go result; a Go \<^verbatim>\<open>error\<close> is a value of type \<open>error\<close>, \<^verbatim>\<open>nil\<close> is
  \<open>None\<close> (or \<open>Inr\<close> when a value is returned as well).
\<close>

subsection \<open>Errors\<close>

text \<open>
  \<open>NotFound\<close> and \<open>AlreadyExists\<close> are the API status errors the code tests for,
  \<open>ApiFailure\<close> is any other failure of an API call, \<open>AlreadyOwned\<close> and
  \<open>CrossNamespaceOwner\<close> come from \<^verbatim>\<open>SetControllerReference\<close>, \<open>Failure\<close> is
  \<^verbatim>\<open>fmt.Errorf\<close> without a cause, \<open>Wrapped\<close> is \<^verbatim>\<open>fmt.Errorf\<close> with \<^verbatim>\<open>%w\<close>, and \<open>Panic\<close> is
  a nil pointer dereference.
\<close>

datatype error =
    NotFound
  | AlreadyExists
  | ApiFailure string
  | AlreadyOwned
  | CrossNamespaceOwner
  | Failure string
  | Wrapped string error
  | Panic

definition IsNotFound :: "error \<Rightarrow> bool" where
  "IsNotFound e = (e = NotFound)"

definition IgnoreNotFound :: "error option \<Rightarrow> error option" where
  "IgnoreNotFound err = (case err of None \<Rightarrow> None | Some e \<Rightarrow> if IsNotFound e then None else Some e)"

subsection \<open>Bucket arguments\<close>

record BucketConfig =
  bc_BucketName :: string
  bc_Region :: string
  bc_EndpointURL :: string
  bc_UsePathStyle :: bool

definition bucketArgs :: "BucketConfig \<Rightarrow> string list" where
  "bucketArgs bc =
     (let args = [];
          args = (if bc_Region bc \<noteq> '''' then args @ [''--region='' @ bc_Region bc] else args);
          args = (if bc_EndpointURL bc \<noteq> '''' then args @ [''--endpoint='' @ bc_EndpointURL bc] else args);
          args = (if bc_UsePathStyle bc then args @ [''--use-path-style''] else args)
      in args @ [bc_BucketName bc])"

subsection \<open>Containers and their memory\<close>

text \<open>
  A \<^verbatim>\<open>resource.Quantity\<close> is represented by the two observations the reconciler makes
  of it: \<^verbatim>\<open>IsZero()\<close> and \<^verbatim>\<open>Value()\<close>. \<^verbatim>\<open>ResourceList.Memory()\<close> yields the entry under
  the key \<^verbatim>\<open>memory\<close>, or a zero quantity when there is none.
\<close>

record Quantity =
  q_IsZero :: bool
  q_Value :: int

type_synonym ResourceList = "string \<rightharpoonup> Quantity"

definition ResourceMemory :: string where
  "ResourceMemory = ''memory''"

definition zeroQuantity :: Quantity where
  "zeroQuantity = \<lparr>q_IsZero = True, q_Value = 0\<rparr>"

definition Memory :: "ResourceList \<Rightarrow> Quantity" where
  "Memory rl = (case rl ResourceMemory of Some q \<Rightarrow> q | None \<Rightarrow> zeroQuantity)"

record ResourceRequirements =
  rr_Limits :: "ResourceList option"
  rr_Requests :: "ResourceList option"

text \<open>
  A \<^verbatim>\<open>ContainerApplyConfiguration\<close>: the name and the image are pointers; \<open>c_Rest\<close> stands
  for the fields this controller file never reads.
\<close>

record Container =
  c_Name :: "string option"
  c_Image :: "string option"
  c_Resources :: "ResourceRequirements option"
  c_Rest :: string

text \<open>Modelled from the spec: the constant \<^verbatim>\<open>constants.MysqldContainerName\<close>, \<^verbatim>\<open>mysqld\<close>.\<close>

definition MysqldContainerName :: string where
  "MysqldContainerName = ''mysqld''"

text \<open>
  The search loop at the head of \<^verbatim>\<open>reconcileV1MyCnf\<close>; \<^verbatim>\<open>*c.Name\<close> panics on a container
  without a name.
\<close>

fun findMysqldContainer :: "Container list \<Rightarrow> error + Container option" where
  "findMysqldContainer [] = Inr None"
| "findMysqldContainer (c # cs) =
     (case c_Name c of
        None \<Rightarrow> Inl Panic
      | Some n \<Rightarrow> if n = MysqldContainerName then Inr (Some c) else findMysqldContainer cs)"

text \<open>The computation of \<^verbatim>\<open>totalMem\<close> in \<^verbatim>\<open>reconcileV1MyCnf\<close>.\<close>

definition totalMem :: "Container \<Rightarrow> int" where
  "totalMem mysqldContainer =
     (let totalMem = 0 in
      case c_Resources mysqldContainer of
        None \<Rightarrow> totalMem
      | Some resources \<Rightarrow>
          (let totalMem =
                 (case rr_Limits resources of
                    None \<Rightarrow> totalMem
                  | Some limits \<Rightarrow>
                      (let res = Memory limits in
                       if \<not> q_IsZero res then q_Value res else totalMem));
               totalMem =
                 (case rr_Requests resources of
                    None \<Rightarrow> totalMem
                  | Some requests \<Rightarrow>
                      (let res = Memory requests in
                       if \<not> q_IsZero res then q_Value res else totalMem))
           in totalMem))"



definition setAndNonZero :: "Quantity option \<Rightarrow> bool" where
  "setAndNonZero q = (case q of None \<Rightarrow> False | Some v \<Rightarrow> \<not> q_IsZero v)"


subsection \<open>Object metadata and owner references\<close>

type_synonym nskey = "string \<times> string" \<comment> \<open>namespace and name\<close>

record OwnerReference =
  or_APIVersion :: string
  or_Kind :: string
  or_Name :: string
  or_UID :: string
  or_BlockOwnerDeletion :: "bool option"
  or_Controller :: "bool option"

record ObjectMeta =
  m_Labels :: "string \<rightharpoonup> string"
  m_Annotations :: "string \<rightharpoonup> string"
  m_OwnerReferences :: "OwnerReference list"

text \<open>
  The owner handed to \<^verbatim>\<open>SetControllerReference\<close>: its group, version and kind as the
  scheme gives them, and its namespace, name and UID.
\<close>

record Owner =
  own_APIVersion :: string
  own_Kind :: string
  own_Namespace :: string
  own_Name :: string
  own_UID :: string

text \<open>
  \<^verbatim>\<open>schema.ParseGroupVersion\<close>, reduced to the group: no slash means the core group, one
  slash separates group and version, more is an error.
\<close>

definition parseGroup :: "string \<Rightarrow> string option" where
  "parseGroup gv =
     (if gv = [] \<or> gv = ''/'' then Some []
      else if count_list gv (CHR ''/'') = 0 then Some []
      else if count_list gv (CHR ''/'') = 1 then Some (takeWhile (\<lambda>ch. ch \<noteq> CHR ''/'') gv)
      else None)"

definition referSameObject :: "OwnerReference \<Rightarrow> OwnerReference \<Rightarrow> bool" where
  "referSameObject a b =
     (case parseGroup (or_APIVersion a) of
        None \<Rightarrow> False
      | Some aGroup \<Rightarrow>
          (case parseGroup (or_APIVersion b) of
             None \<Rightarrow> False
           | Some bGroup \<Rightarrow> aGroup = bGroup \<and> or_Kind a = or_Kind b \<and> or_Name a = or_Name b))"

definition GetControllerOf :: "OwnerReference list \<Rightarrow> OwnerReference option" where
  "GetControllerOf refs = find (\<lambda>r. or_Controller r = Some True) refs"

fun upsertOwnerRef :: "OwnerReference \<Rightarrow> OwnerReference list \<Rightarrow> OwnerReference list" where
  "upsertOwnerRef ref [] = [ref]"
| "upsertOwnerRef ref (r # rs) =
     (if referSameObject r ref then ref # rs else r # upsertOwnerRef ref rs)"

definition controllerRef :: "Owner \<Rightarrow> OwnerReference" where
  "controllerRef owner =
     \<lparr>or_APIVersion = own_APIVersion owner, or_Kind = own_Kind owner, or_Name = own_Name owner,
      or_UID = own_UID owner, or_BlockOwnerDeletion = Some True, or_Controller = Some True\<rparr>"

text \<open>
  \<^verbatim>\<open>controllerutil.SetControllerReference\<close> of controller-runtime, for an owner whose kind
  is registered in the scheme: the owner must live in the namespace of the object, the
  object must not be controlled by something else, and the reference is inserted or
  replaced.
\<close>

definition SetControllerReference ::
  "Owner \<Rightarrow> string \<Rightarrow> 'a ObjectMeta_scheme \<Rightarrow> error + 'a ObjectMeta_scheme" where
  "SetControllerReference owner objNamespace obj =
     (if own_Namespace owner \<noteq> [] \<and> (objNamespace = [] \<or> own_Namespace owner \<noteq> objNamespace)
      then Inl CrossNamespaceOwner
      else
        (let ref = controllerRef owner in
         case GetControllerOf (m_OwnerReferences obj) of
           Some existing \<Rightarrow>
             if \<not> referSameObject existing ref then Inl AlreadyOwned
             else Inr (obj\<lparr>m_OwnerReferences := upsertOwnerRef ref (m_OwnerReferences obj)\<rparr>)
         | None \<Rightarrow> Inr (obj\<lparr>m_OwnerReferences := upsertOwnerRef ref (m_OwnerReferences obj)\<rparr>)))"

definition mergeMap :: "(string \<rightharpoonup> string) \<Rightarrow> (string \<rightharpoonup> string) \<Rightarrow> (string \<rightharpoonup> string)" where
  "mergeMap m1 m2 = m1 ++ m2"

subsection \<open>Managed objects\<close>

record Secret = ObjectMeta +
  s_Data :: "string \<rightharpoonup> string"

record ConfigMap = ObjectMeta +
  cm_Data :: "string \<rightharpoonup> string"

record ServiceAccount = ObjectMeta +
  sa_Secrets :: "string list"

record PodDisruptionBudget = ObjectMeta +
  pdb_MaxUnavailable :: "int option"
  pdb_MinAvailable :: "int option"
  pdb_Selector :: "(string \<rightharpoonup> string) option"

record PolicyRule =
  pr_APIGroups :: "string list"
  pr_Resources :: "string list"
  pr_Verbs :: "string list"
  pr_ResourceNames :: "string list"

record Role = ObjectMeta +
  role_Rules :: "PolicyRule list"

record Subject =
  sub_Kind :: string
  sub_Name :: string
  sub_Namespace :: string

record RoleBinding = ObjectMeta +
  rb_RoleRefAPIGroup :: string
  rb_RoleRefKind :: string
  rb_RoleRefName :: string
  rb_Subjects :: "Subject list"

text \<open>
  The container of a backup or restore Job. Volume sources, environment sources and
  environment variables supplied by the user are carried as they are.
\<close>

datatype EnvVar = EnvValue string string | EnvSecretKeyRef string string string

record JobContainer =
  jc_Name :: string
  jc_Image :: string
  jc_Args :: "string list"
  jc_EnvFrom :: "string list"
  jc_Env :: "EnvVar list"
  jc_VolumeMounts :: "(string \<times> string) list"
  jc_ReadOnlyRootFilesystem :: "bool option"
  jc_Requests :: "ResourceList option"
  jc_Limits :: "ResourceList option"

record JobPodSpec =
  jps_RestartPolicy :: string
  jps_ServiceAccountName :: string
  jps_Volumes :: "(string \<times> string) list"
  jps_Containers :: "JobContainer list"

record JobSpec =
  js_ActiveDeadlineSeconds :: "int option"
  js_BackoffLimit :: "int option"
  js_TemplateLabels :: "string \<rightharpoonup> string"
  js_PodSpec :: JobPodSpec

record Job = ObjectMeta +
  job_UID :: string
  job_Spec :: JobSpec

record CronJob = ObjectMeta +
  cj_Schedule :: string
  cj_StartingDeadlineSeconds :: "int option"
  cj_ConcurrencyPolicy :: string
  cj_SuccessfulJobsHistoryLimit :: "int option"
  cj_FailedJobsHistoryLimit :: "int option"
  cj_JobTemplateLabels :: "string \<rightharpoonup> string"
  cj_JobSpec :: JobSpec


subsection \<open>Services and StatefulSets under server-side apply\<close>

record ServicePort =
  sp_Name :: "string option"
  sp_Protocol :: "string option"
  sp_Port :: "int option"
  sp_TargetPort :: "string option"
  sp_NodePort :: "int option"

record ServiceSpecAC =
  ss_Ports :: "ServicePort list"
  ss_Selector :: "string \<rightharpoonup> string"
  ss_ClusterIP :: "string option"
  ss_Type :: "string option"
  ss_PublishNotReadyAddresses :: "bool option"
  ss_Rest :: string

record ServiceAC =
  sv_Name :: "string option"
  sv_Namespace :: "string option"
  sv_Labels :: "string \<rightharpoonup> string"
  sv_Annotations :: "string \<rightharpoonup> string"
  sv_OwnerReferences :: "OwnerReference list"
  sv_Spec :: "ServiceSpecAC option"

text \<open>
  A live Service: the configuration applied under the field manager \<^verbatim>\<open>moco-controller\<close>
  (what \<^verbatim>\<open>ExtractService\<close> returns) and the node ports the API server has assigned, by
  port name.
\<close>

record Service =
  svc_Applied :: ServiceAC
  svc_NodePorts :: "string \<rightharpoonup> int"

datatype VolumeSource =
    EmptyDirNil
  | ConfigMapVolume string int
  | SecretVolume string int
  | UserVolume string

record Volume =
  vol_Name :: "string option"
  vol_Source :: VolumeSource

record PodSpecAC =
  ps_ServiceAccountName :: "string option"
  ps_TerminationGracePeriodSeconds :: "int option"
  ps_Volumes :: "Volume list"
  ps_Containers :: "Container list"
  ps_InitContainers :: "Container list"
  ps_Rest :: string

record PersistentVolumeClaimAC =
  pvc_Name :: "string option"
  pvc_OwnerReferences :: "OwnerReference list"
  pvc_Rest :: string

record StatefulSetAC =
  sts_Name :: "string option"
  sts_Namespace :: "string option"
  sts_Labels :: "string \<rightharpoonup> string"
  sts_OwnerReferences :: "OwnerReference list"
  sts_Replicas :: "int option"
  sts_Selector :: "(string \<rightharpoonup> string) option"
  sts_PodManagementPolicy :: "string option"
  sts_UpdateStrategy :: "string option"
  sts_ServiceName :: "string option"
  sts_VolumeClaimTemplates :: "PersistentVolumeClaimAC list"
  sts_TemplateAnnotations :: "string \<rightharpoonup> string"
  sts_TemplateLabels :: "string \<rightharpoonup> string"
  sts_TemplateSpec :: "PodSpecAC option"

record StatefulSet =
  set_Applied :: StatefulSetAC

subsection \<open>The custom resources\<close>

record JobConfig =
  jcfg_ServiceAccountName :: string
  jcfg_BucketConfig :: BucketConfig
  jcfg_WorkVolume :: string
  jcfg_Threads :: int
  jcfg_Memory :: "Quantity option"
  jcfg_MaxMemory :: "Quantity option"
  jcfg_EnvFrom :: "string list"
  jcfg_Env :: "EnvVar list"

record BackupPolicy =
  bp_Schedule :: string
  bp_JobConfig :: JobConfig
  bp_StartingDeadlineSeconds :: "int option"
  bp_ConcurrencyPolicy :: string
  bp_ActiveDeadlineSeconds :: "int option"
  bp_BackoffLimit :: "int option"
  bp_SuccessfulJobsHistoryLimit :: "int option"
  bp_FailedJobsHistoryLimit :: "int option"

record RestoreSpec =
  rs_SourceName :: string
  rs_SourceNamespace :: string
  rs_RestorePoint :: int
  rs_JobConfig :: JobConfig

record ServiceTemplate =
  st_Annotations :: "string \<rightharpoonup> string"
  st_Labels :: "string \<rightharpoonup> string"
  st_Spec :: "ServiceSpecAC option"

record PodTemplateSpec =
  pt_Annotations :: "string \<rightharpoonup> string"
  pt_Labels :: "string \<rightharpoonup> string"
  pt_Spec :: PodSpecAC

record MySQLClusterSpec =
  spec_Replicas :: int
  spec_PodTemplate :: PodTemplateSpec
  spec_VolumeClaimTemplates :: "PersistentVolumeClaimAC list"
  spec_PrimaryServiceTemplate :: "ServiceTemplate option"
  spec_ReplicaServiceTemplate :: "ServiceTemplate option"
  spec_MySQLConfigMapName :: "string option"
  spec_Collectors :: "string list"
  spec_BackupPolicyName :: "string option"
  spec_Restore :: "RestoreSpec option"
  spec_DisableSlowQueryLogContainer :: bool

record ReconcileInfo =
  ri_Generation :: int
  ri_ReconcileVersion :: int

record MySQLClusterStatus =
  status_RestoredTime :: "int option"
  status_ReconcileInfo :: ReconcileInfo

record MySQLCluster =
  mc_Namespace :: string
  mc_Name :: string
  mc_UID :: string
  mc_Generation :: int
  mc_DeletionTimestamp :: "int option"
  mc_Finalizers :: "string list"
  mc_Spec :: MySQLClusterSpec
  mc_Status :: MySQLClusterStatus

text \<open>
  Modelled from the spec: the naming methods of \<^verbatim>\<open>MySQLCluster\<close> (package
  \<^verbatim>\<open>api/v1beta2\<close>), after the naming surface of the specification, the finalizer string,
  and the names and numbers of the two MySQL ports.
\<close>

definition PrefixedName :: "MySQLCluster \<Rightarrow> string" where
  "PrefixedName c = ''moco-'' @ mc_Name c"

definition ControllerSecretName :: "MySQLCluster \<Rightarrow> string" where
  "ControllerSecretName c = mc_Namespace c @ ''.'' @ mc_Name c"

definition UserSecretName :: "MySQLCluster \<Rightarrow> string" where
  "UserSecretName c = ''moco-'' @ mc_Name c"

definition MyCnfSecretName :: "MySQLCluster \<Rightarrow> string" where
  "MyCnfSecretName c = ''moco-my-cnf-'' @ mc_Name c"

definition HeadlessServiceName :: "MySQLCluster \<Rightarrow> string" where
  "HeadlessServiceName c = ''moco-'' @ mc_Name c"

definition PrimaryServiceName :: "MySQLCluster \<Rightarrow> string" where
  "PrimaryServiceName c = ''moco-'' @ mc_Name c @ ''-primary''"

definition ReplicaServiceName :: "MySQLCluster \<Rightarrow> string" where
  "ReplicaServiceName c = ''moco-'' @ mc_Name c @ ''-replica''"

definition BackupCronJobName :: "MySQLCluster \<Rightarrow> string" where
  "BackupCronJobName c = ''moco-backup-'' @ mc_Name c"

definition RestoreJobName :: "MySQLCluster \<Rightarrow> string" where
  "RestoreJobName c = ''moco-restore-'' @ mc_Name c"

definition CertificateName :: "MySQLCluster \<Rightarrow> string" where
  "CertificateName c = ''moco-agent-'' @ mc_Namespace c @ ''.'' @ mc_Name c"

definition MySQLClusterFinalizer :: string where
  "MySQLClusterFinalizer = ''moco.cybozu.com/mysqlcluster''"

definition MySQLPortName :: string where
  "MySQLPortName = ''mysql''"

definition MySQLXPortName :: string where
  "MySQLXPortName = ''mysqlx''"

definition MySQLPort :: int where
  "MySQLPort = 3306"

definition MySQLXPort :: int where
  "MySQLXPort = 33060"


subsection \<open>The API server and the clustering manager\<close>

text \<open>
  The state outside the reconciler: one association list per kind of object, keyed by
  namespace and name, the calls received by the clustering manager, and \<open>faults\<close>, the
  failures the API server is going to answer with: every API call consumes the head of
  that list and fails with \<open>ApiFailure\<close> when it is \<open>Some\<close>. Quantifying over the list
  covers every pattern of transient failures.
\<close>

datatype ManagerCall = ManagerUpdate nskey | ManagerStop nskey

record world =
  clusters :: "(nskey \<times> MySQLCluster) list"
  secrets :: "(nskey \<times> Secret) list"
  configMaps :: "(nskey \<times> ConfigMap) list"
  serviceAccounts :: "(nskey \<times> ServiceAccount) list"
  services :: "(nskey \<times> Service) list"
  statefulSets :: "(nskey \<times> StatefulSet) list"
  pdbs :: "(nskey \<times> PodDisruptionBudget) list"
  cronJobs :: "(nskey \<times> CronJob) list"
  jobs :: "(nskey \<times> Job) list"
  roles :: "(nskey \<times> Role) list"
  roleBindings :: "(nskey \<times> RoleBinding) list"
  backupPolicies :: "(nskey \<times> BackupPolicy) list"
  certificates :: "(nskey \<times> string) list"
  faults :: "string option list"
  managerCalls :: "ManagerCall list"

definition nextFault :: "world \<Rightarrow> string option \<times> world" where
  "nextFault w = (case faults w of [] \<Rightarrow> (None, w) | f # fs \<Rightarrow> (f, w\<lparr>faults := fs\<rparr>))"

text \<open>
  The client calls. \<open>sel\<close> reads the list of one kind and \<open>upd\<close> changes it (a field of
  \<open>world\<close> and its update function).
\<close>

definition apiGet ::
  "(world \<Rightarrow> (nskey \<times> 'o) list) \<Rightarrow> nskey \<Rightarrow> world \<Rightarrow> world \<times> (error + 'o)" where
  "apiGet sel key w =
     (case nextFault w of
        (Some msg, w') \<Rightarrow> (w', Inl (ApiFailure msg))
      | (None, w') \<Rightarrow>
          (case map_of (sel w') key of
             None \<Rightarrow> (w', Inl NotFound)
           | Some obj \<Rightarrow> (w', Inr obj)))"

definition apiCreate ::
  "(world \<Rightarrow> (nskey \<times> 'o) list) \<Rightarrow> (((nskey \<times> 'o) list \<Rightarrow> (nskey \<times> 'o) list) \<Rightarrow> world \<Rightarrow> world) \<Rightarrow>
   nskey \<Rightarrow> 'o \<Rightarrow> world \<Rightarrow> world \<times> error option" where
  "apiCreate sel upd key obj w =
     (case nextFault w of
        (Some msg, w') \<Rightarrow> (w', Some (ApiFailure msg))
      | (None, w') \<Rightarrow>
          (case map_of (sel w') key of
             Some existing \<Rightarrow> (w', Some AlreadyExists)
           | None \<Rightarrow> (upd (AList.update key obj) w', None)))"

definition apiUpdate ::
  "(world \<Rightarrow> (nskey \<times> 'o) list) \<Rightarrow> (((nskey \<times> 'o) list \<Rightarrow> (nskey \<times> 'o) list) \<Rightarrow> world \<Rightarrow> world) \<Rightarrow>
   nskey \<Rightarrow> 'o \<Rightarrow> world \<Rightarrow> world \<times> error option" where
  "apiUpdate sel upd key obj w =
     (case nextFault w of
        (Some msg, w') \<Rightarrow> (w', Some (ApiFailure msg))
      | (None, w') \<Rightarrow>
          (case map_of (sel w') key of
             None \<Rightarrow> (w', Some NotFound)
           | Some existing \<Rightarrow> (upd (AList.update key obj) w', None)))"

definition apiDelete ::
  "(world \<Rightarrow> (nskey \<times> 'o) list) \<Rightarrow> (((nskey \<times> 'o) list \<Rightarrow> (nskey \<times> 'o) list) \<Rightarrow> world \<Rightarrow> world) \<Rightarrow>
   nskey \<Rightarrow> world \<Rightarrow> world \<times> error option" where
  "apiDelete sel upd key w =
     (case nextFault w of
        (Some msg, w') \<Rightarrow> (w', Some (ApiFailure msg))
      | (None, w') \<Rightarrow>
          (case map_of (sel w') key of
             None \<Rightarrow> (w', Some NotFound)
           | Some existing \<Rightarrow> (upd (AList.delete key) w', None)))"

text \<open>\<^verbatim>\<open>List\<close> with \<^verbatim>\<open>client.InNamespace\<close>: the objects of one namespace, each once.\<close>

definition apiList ::
  "(world \<Rightarrow> (nskey \<times> 'o) list) \<Rightarrow> string \<Rightarrow> world \<Rightarrow> world \<times> (error + (nskey \<times> 'o) list)" where
  "apiList sel ns w =
     (case nextFault w of
        (Some msg, w') \<Rightarrow> (w', Inl (ApiFailure msg))
      | (None, w') \<Rightarrow> (w', Inr (filter (\<lambda>(key, obj). fst key = ns) (AList.clearjunk (sel w')))))"

text \<open>
  \<^verbatim>\<open>Patch\<close> with \<^verbatim>\<open>client.Apply\<close> and \<^verbatim>\<open>Force\<close> under the field manager \<^verbatim>\<open>moco-controller\<close>:
  the applied configuration of the object becomes the patch, and the object is created when
  it does not exist. What the API server itself fills in (such as the allocation of node
  ports) is not part of the model: \<open>svc_NodePorts\<close> is left as it is.
\<close>

definition applyService :: "nskey \<Rightarrow> ServiceAC \<Rightarrow> world \<Rightarrow> world \<times> error option" where
  "applyService key patch w =
     (case nextFault w of
        (Some msg, w') \<Rightarrow> (w', Some (ApiFailure msg))
      | (None, w') \<Rightarrow>
          (case map_of (services w') key of
             None \<Rightarrow>
               (w'\<lparr>services := AList.update key \<lparr>svc_Applied = patch, svc_NodePorts = Map.empty\<rparr> (services w')\<rparr>, None)
           | Some live \<Rightarrow>
               (w'\<lparr>services := AList.update key (live\<lparr>svc_Applied := patch\<rparr>) (services w')\<rparr>, None)))"

definition applyStatefulSet :: "nskey \<Rightarrow> StatefulSetAC \<Rightarrow> world \<Rightarrow> world \<times> error option" where
  "applyStatefulSet key patch w =
     (case nextFault w of
        (Some msg, w') \<Rightarrow> (w', Some (ApiFailure msg))
      | (None, w') \<Rightarrow>
          (w'\<lparr>statefulSets := AList.update key \<lparr>set_Applied = patch\<rparr> (statefulSets w')\<rparr>, None))"

text \<open>
  \<^verbatim>\<open>controllerutil.CreateOrUpdate\<close> of controller-runtime: get the object; when it is not
  found, mutate the caller's object and create it; otherwise mutate what was read and update
  it unless nothing changed. The object as the caller holds it afterwards is returned too.
\<close>

datatype OperationResult = OperationResultNone | OperationResultCreated | OperationResultUpdated

definition CreateOrUpdate ::
  "(world \<Rightarrow> (nskey \<times> 'o) list) \<Rightarrow> (((nskey \<times> 'o) list \<Rightarrow> (nskey \<times> 'o) list) \<Rightarrow> world \<Rightarrow> world) \<Rightarrow>
   nskey \<Rightarrow> 'o \<Rightarrow> ('o \<Rightarrow> error + 'o) \<Rightarrow> world \<Rightarrow> world \<times> (error + OperationResult \<times> 'o)" where
  "CreateOrUpdate sel upd key obj f w =
     (case apiGet sel key w of
        (w1, Inl err) \<Rightarrow>
          if \<not> IsNotFound err then (w1, Inl err)
          else
            (case f obj of
               Inl err \<Rightarrow> (w1, Inl err)
             | Inr obj' \<Rightarrow>
                 (case apiCreate sel upd key obj' w1 of
                    (w2, Some err) \<Rightarrow> (w2, Inl err)
                  | (w2, None) \<Rightarrow> (w2, Inr (OperationResultCreated, obj'))))
      | (w1, Inr existing) \<Rightarrow>
          (case f existing of
             Inl err \<Rightarrow> (w1, Inl err)
           | Inr obj' \<Rightarrow>
               if existing = obj' then (w1, Inr (OperationResultNone, obj'))
               else
                 (case apiUpdate sel upd key obj' w1 of
                    (w2, Some err) \<Rightarrow> (w2, Inl err)
                  | (w2, None) \<Rightarrow> (w2, Inr (OperationResultUpdated, obj')))))"

subsection \<open>What the reconciler is configured with\<close>

text \<open>
  The fields of \<^verbatim>\<open>MySQLClusterReconciler\<close>, the two debug variables, and the parts of the
  repository that this file uses and that lie in other packages: the constants of
  \<^verbatim>\<open>pkg/constants\<close> and \<^verbatim>\<open>pkg/password\<close> that the specification does not spell out, the
  naming methods it does not list, the generator of \<^verbatim>\<open>pkg/mycnf\<close>, the password bundle, the
  certificate and gRPC secret steps, and the makers of the containers. They are parameters:
  every theorem holds for all of them.
\<close>

type_synonym MySQLPassword = "string \<rightharpoonup> string"

record env =
  SystemNamespace :: string
  BackupImage :: string
  debugController :: bool
  noJobResource :: bool
  k_ClusterAPIVersion :: string
  k_ClusterKind :: string
  k_Group :: string
  k_LabelAppName :: string
  k_AppNameMySQL :: string
  k_AppNameBackup :: string
  k_LabelAppInstance :: string
  k_LabelAppCreatedBy :: string
  k_AppCreator :: string
  k_LabelAppNamespace :: string
  k_LabelMocoRole :: string
  k_RolePrimary :: string
  k_RoleReplica :: string
  k_MySQLConfName :: string
  k_FluentBitConfigName :: string
  k_SlowLogPath :: string
  k_BackupSubcommand :: string
  k_RestoreSubcommand :: string
  k_BackupPasswordKey :: string
  k_AdminPasswordKey :: string
  k_TmpVolumeName :: string
  k_RunVolumeName :: string
  k_VarLogVolumeName :: string
  k_MySQLInitConfVolumeName :: string
  k_MySQLConfVolumeName :: string
  k_MySQLConfSecretVolumeName :: string
  k_GRPCSecretVolumeName :: string
  k_SlowQueryLogAgentConfigVolumeName :: string
  GRPCSecretName :: "MySQLCluster \<Rightarrow> string"
  SlowQueryLogAgentConfigMapName :: "MySQLCluster \<Rightarrow> string"
  BackupRoleName :: "MySQLCluster \<Rightarrow> string"
  RestoreRoleName :: "MySQLCluster \<Rightarrow> string"
  formatBackupTime :: "int \<Rightarrow> string"
  Generate :: "(string \<rightharpoonup> string) \<Rightarrow> int \<Rightarrow> string"
  NewMySQLPasswordFromSecret :: "Secret \<Rightarrow> error + MySQLPassword"
  NewMySQLPassword :: "error + MySQLPassword"
  ToSecret :: "MySQLPassword \<Rightarrow> Secret"
  ToMyCnfSecret :: "MySQLPassword \<Rightarrow> Secret"
  reconcileV1Certificate :: "MySQLCluster \<Rightarrow> world \<Rightarrow> world \<times> error option"
  reconcileV1GRPCSecret :: "MySQLCluster \<Rightarrow> world \<Rightarrow> world \<times> error option"
  updateContainerWithSupplements :: "JobContainer \<Rightarrow> JobContainer list \<Rightarrow> JobContainer"
  ToCoreV1 :: "PersistentVolumeClaimAC \<Rightarrow> PersistentVolumeClaimAC"
  makeV1MySQLDContainer :: "MySQLCluster \<Rightarrow> error + Container"
  makeV1AgentContainer :: "MySQLCluster \<Rightarrow> Container"
  makeV1SlowQueryLogContainer :: "StatefulSetAC \<Rightarrow> bool \<Rightarrow> Container"
  makeV1ExporterContainer :: "string list \<Rightarrow> Container"
  makeV1OptionalContainers :: "MySQLCluster \<Rightarrow> Container list"
  makeV1InitContainer :: "MySQLCluster \<Rightarrow> string \<Rightarrow> Container list"

definition clusterOwner :: "env \<Rightarrow> MySQLCluster \<Rightarrow> Owner" where
  "clusterOwner r cluster =
     \<lparr>own_APIVersion = k_ClusterAPIVersion r, own_Kind = k_ClusterKind r,
      own_Namespace = mc_Namespace cluster, own_Name = mc_Name cluster, own_UID = mc_UID cluster\<rparr>"

definition labelSet :: "env \<Rightarrow> MySQLCluster \<Rightarrow> bool \<Rightarrow> (string \<rightharpoonup> string)" where
  "labelSet r cluster controller =
     (let labels = [k_LabelAppName r \<mapsto> k_AppNameMySQL r,
                    k_LabelAppInstance r \<mapsto> mc_Name cluster,
                    k_LabelAppCreatedBy r \<mapsto> k_AppCreator r]
      in if controller then labels(k_LabelAppNamespace r \<mapsto> mc_Namespace cluster) else labels)"

definition labelSetForJob :: "env \<Rightarrow> MySQLCluster \<Rightarrow> (string \<rightharpoonup> string)" where
  "labelSetForJob r cluster =
     [k_LabelAppName r \<mapsto> k_AppNameBackup r,
      k_LabelAppInstance r \<mapsto> mc_Name cluster,
      k_LabelAppCreatedBy r \<mapsto> k_AppCreator r]"


subsection \<open>Small helpers of the Go runtime and library\<close>

text \<open>Go's integer division truncates towards zero.\<close>

definition goDiv :: "int \<Rightarrow> int \<Rightarrow> int" where
  "goDiv a b = sgn a * sgn b * (\<bar>a\<bar> div \<bar>b\<bar>)"

text \<open>\<^verbatim>\<open>%d\<close> of \<^verbatim>\<open>fmt.Sprintf\<close>.\<close>

fun showNat :: "nat \<Rightarrow> string" where
  "showNat n = (if n < 10 then [char_of (48 + n)] else showNat (n div 10) @ [char_of (48 + n mod 10)])"

declare showNat.simps [simp del]

definition showInt :: "int \<Rightarrow> string" where
  "showInt i = (if i < 0 then ''-'' @ showNat (nat (- i)) else showNat (nat i))"

text \<open>
  \<^verbatim>\<open>if err != nil { return err }\<close> after a step that returns only an error: the rest of the
  function runs on the state the step left.
\<close>

definition orReturn ::
  "world \<times> error option \<Rightarrow> (world \<Rightarrow> world \<times> error option) \<Rightarrow> world \<times> error option" where
  "orReturn step rest = (case step of (w, Some err) \<Rightarrow> (w, Some err) | (w, None) \<Rightarrow> rest w)"

text \<open>\<^verbatim>\<open>resource.NewQuantity(n, DecimalSI)\<close>.\<close>

definition NewQuantity :: "int \<Rightarrow> Quantity" where
  "NewQuantity n = \<lparr>q_IsZero = (n = 0), q_Value = n\<rparr>"

definition ResourceCPU :: string where
  "ResourceCPU = ''cpu''"

subsection \<open>The PodDisruptionBudget\<close>

definition newPodDisruptionBudget :: PodDisruptionBudget where
  "newPodDisruptionBudget =
     \<lparr>m_Labels = Map.empty, m_Annotations = Map.empty, m_OwnerReferences = [],
      pdb_MaxUnavailable = None, pdb_MinAvailable = None, pdb_Selector = None\<rparr>"

definition reconcileV1PDB :: "env \<Rightarrow> MySQLCluster \<Rightarrow> world \<Rightarrow> world \<times> error option" where
  "reconcileV1PDB r cluster w =
     (let key = (mc_Namespace cluster, PrefixedName cluster) in
      if spec_Replicas (mc_Spec cluster) < 3 then
        (case apiDelete pdbs pdbs_update key w of (w1, err) \<Rightarrow> (w1, IgnoreNotFound err))
      else
        (case CreateOrUpdate pdbs pdbs_update key newPodDisruptionBudget
                (\<lambda>pdb.
                   let pdb = pdb\<lparr>m_Labels := mergeMap (m_Labels pdb) (labelSet r cluster False)\<rparr>;
                       maxUnavailable = goDiv (spec_Replicas (mc_Spec cluster)) 2;
                       pdb = pdb\<lparr>pdb_MaxUnavailable := Some maxUnavailable\<rparr>;
                       pdb = pdb\<lparr>pdb_Selector := Some (labelSet r cluster False)\<rparr>
                   in SetControllerReference (clusterOwner r cluster) (mc_Namespace cluster) pdb)
                w of
           (w1, Inl err) \<Rightarrow> (w1, Some err)
         | (w1, Inr result) \<Rightarrow> (w1, None)))"

subsection \<open>Backup and restore\<close>

definition newCronJob :: CronJob where
  "newCronJob =
     \<lparr>m_Labels = Map.empty, m_Annotations = Map.empty, m_OwnerReferences = [],
      cj_Schedule = [], cj_StartingDeadlineSeconds = None, cj_ConcurrencyPolicy = [],
      cj_SuccessfulJobsHistoryLimit = None, cj_FailedJobsHistoryLimit = None,
      cj_JobTemplateLabels = Map.empty,
      cj_JobSpec =
        \<lparr>js_ActiveDeadlineSeconds = None, js_BackoffLimit = None, js_TemplateLabels = Map.empty,
         js_PodSpec = \<lparr>jps_RestartPolicy = [], jps_ServiceAccountName = [], jps_Volumes = [],
                       jps_Containers = []\<rparr>\<rparr>\<rparr>"

definition newJob :: Job where
  "newJob =
     \<lparr>m_Labels = Map.empty, m_Annotations = Map.empty, m_OwnerReferences = [], job_UID = [],
      job_Spec =
        \<lparr>js_ActiveDeadlineSeconds = None, js_BackoffLimit = None, js_TemplateLabels = Map.empty,
         js_PodSpec = \<lparr>jps_RestartPolicy = [], jps_ServiceAccountName = [], jps_Volumes = [],
                       jps_Containers = []\<rparr>\<rparr>\<rparr>"

definition newRole :: Role where
  "newRole = \<lparr>m_Labels = Map.empty, m_Annotations = Map.empty, m_OwnerReferences = [], role_Rules = []\<rparr>"

definition newRoleBinding :: RoleBinding where
  "newRoleBinding =
     \<lparr>m_Labels = Map.empty, m_Annotations = Map.empty, m_OwnerReferences = [],
      rb_RoleRefAPIGroup = [], rb_RoleRefKind = [], rb_RoleRefName = [], rb_Subjects = []\<rparr>"

text \<open>The resource requirements of the backup and of the restore container.\<close>

definition jobResources :: "env \<Rightarrow> JobConfig \<Rightarrow> ResourceList option \<times> ResourceList option" where
  "jobResources r jc =
     (let requests = [ResourceCPU \<mapsto> NewQuantity (jcfg_Threads jc)];
          requests = (case jcfg_Memory jc of
                        Some m \<Rightarrow> requests(ResourceMemory \<mapsto> m)
                      | None \<Rightarrow> requests(ResourceMemory := None));
          limits = (case jcfg_MaxMemory jc of
                      Some m \<Rightarrow> Some [ResourceMemory \<mapsto> m]
                    | None \<Rightarrow> None)
      in if noJobResource r then (None, None) else (Some requests, limits))"

definition backupContainer :: "env \<Rightarrow> MySQLCluster \<Rightarrow> JobConfig \<Rightarrow> JobContainer" where
  "backupContainer r cluster jc =
     (let args = [k_BackupSubcommand r, ''--threads='' @ showInt (jcfg_Threads jc)];
          args = args @ bucketArgs (jcfg_BucketConfig jc);
          args = args @ [mc_Namespace cluster, mc_Name cluster];
          env = [EnvSecretKeyRef ''MYSQL_PASSWORD'' (UserSecretName cluster) (k_BackupPasswordKey r)];
          res = jobResources r jc
      in \<lparr>jc_Name = ''backup'', jc_Image = BackupImage r, jc_Args = args,
          jc_EnvFrom = [] @ jcfg_EnvFrom jc, jc_Env = env @ jcfg_Env jc,
          jc_VolumeMounts = [(''work'', ''/work'')], jc_ReadOnlyRootFilesystem = Some True,
          jc_Requests = fst res, jc_Limits = snd res\<rparr>)"

definition backupRoleRules :: "env \<Rightarrow> MySQLCluster \<Rightarrow> PolicyRule list" where
  "backupRoleRules r cluster =
     [\<lparr>pr_APIGroups = [k_Group r], pr_Resources = [''mysqlclusters'', ''mysqlclusters/status''],
       pr_Verbs = [''get'', ''update''], pr_ResourceNames = [mc_Name cluster]\<rparr>,
      \<lparr>pr_APIGroups = [[]], pr_Resources = [''pods''],
       pr_Verbs = [''get'', ''list'', ''watch''], pr_ResourceNames = []\<rparr>,
      \<lparr>pr_APIGroups = [[]], pr_Resources = [''events''],
       pr_Verbs = [''create'', ''update'', ''patch''], pr_ResourceNames = []\<rparr>]"

definition reconcileV1BackupJob :: "env \<Rightarrow> MySQLCluster \<Rightarrow> world \<Rightarrow> world \<times> error option" where
  "reconcileV1BackupJob r cluster w =
     (let ns = mc_Namespace cluster in
      case spec_BackupPolicyName (mc_Spec cluster) of
        None \<Rightarrow>
          orReturn
            (case apiGet cronJobs (ns, BackupCronJobName cluster) w of
               (w1, Inr cj) \<Rightarrow> apiDelete cronJobs cronJobs_update (ns, BackupCronJobName cluster) w1
             | (w1, Inl err) \<Rightarrow> if \<not> IsNotFound err then (w1, Some err) else (w1, None))
            (\<lambda>w. orReturn
              (case apiGet roles (ns, BackupRoleName r cluster) w of
                 (w1, Inr role) \<Rightarrow> apiDelete roles roles_update (ns, BackupRoleName r cluster) w1
               | (w1, Inl err) \<Rightarrow> if \<not> IsNotFound err then (w1, Some err) else (w1, None))
              (\<lambda>w. orReturn
                (case apiGet roleBindings (ns, BackupRoleName r cluster) w of
                   (w1, Inr rolebinding) \<Rightarrow>
                     apiDelete roleBindings roleBindings_update (ns, BackupRoleName r cluster) w1
                 | (w1, Inl err) \<Rightarrow> if \<not> IsNotFound err then (w1, Some err) else (w1, None))
                (\<lambda>w. (w, None))))
      | Some bpName \<Rightarrow>
          (case apiGet backupPolicies (ns, bpName) w of
             (w1, Inl err) \<Rightarrow>
               (w1, Some (Wrapped (''failed to get backup policy '' @ ns @ ''/'' @ bpName) err))
           | (w1, Inr bp) \<Rightarrow>
               orReturn
                 (case CreateOrUpdate cronJobs cronJobs_update (ns, BackupCronJobName cluster) newCronJob
                         (\<lambda>cj.
                            let jc = bp_JobConfig bp;
                                podSpec = js_PodSpec (cj_JobSpec cj);
                                c = backupContainer r cluster jc;
                                c = updateContainerWithSupplements r c (jps_Containers podSpec);
                                podSpec = podSpec
                                  \<lparr>jps_RestartPolicy := ''Never'',
                                   jps_ServiceAccountName := jcfg_ServiceAccountName jc,
                                   jps_Volumes := [(''work'', jcfg_WorkVolume jc)],
                                   jps_Containers := [c]\<rparr>;
                                cj = cj
                                  \<lparr>m_Labels := mergeMap (m_Labels cj) (labelSetForJob r cluster),
                                   cj_Schedule := bp_Schedule bp,
                                   cj_StartingDeadlineSeconds := bp_StartingDeadlineSeconds bp,
                                   cj_ConcurrencyPolicy := bp_ConcurrencyPolicy bp,
                                   cj_SuccessfulJobsHistoryLimit := bp_SuccessfulJobsHistoryLimit bp,
                                   cj_FailedJobsHistoryLimit := bp_FailedJobsHistoryLimit bp,
                                   cj_JobTemplateLabels := labelSetForJob r cluster,
                                   cj_JobSpec :=
                                     \<lparr>js_ActiveDeadlineSeconds = bp_ActiveDeadlineSeconds bp,
                                      js_BackoffLimit = bp_BackoffLimit bp,
                                      js_TemplateLabels = labelSetForJob r cluster,
                                      js_PodSpec = podSpec\<rparr>\<rparr>
                            in SetControllerReference (clusterOwner r cluster) ns cj)
                         w1 of
                    (w2, Inl err) \<Rightarrow> (w2, Some err)
                  | (w2, Inr result) \<Rightarrow> (w2, None))
                 (\<lambda>w. orReturn
                   (case CreateOrUpdate roles roles_update (ns, BackupRoleName r cluster) newRole
                           (\<lambda>role.
                              let role = role
                                    \<lparr>m_Labels := mergeMap (m_Labels role) (labelSetForJob r cluster),
                                     role_Rules := backupRoleRules r cluster\<rparr>
                              in SetControllerReference (clusterOwner r cluster) ns role)
                           w of
                      (w2, Inl err) \<Rightarrow> (w2, Some err)
                    | (w2, Inr result) \<Rightarrow> (w2, None))
                   (\<lambda>w.
                     (case CreateOrUpdate roleBindings roleBindings_update (ns, BackupRoleName r cluster)
                             newRoleBinding
                             (\<lambda>rolebinding.
                                let rolebinding = rolebinding
                                      \<lparr>m_Labels := mergeMap (m_Labels rolebinding) (labelSetForJob r cluster),
                                       rb_RoleRefAPIGroup := ''rbac.authorization.k8s.io'',
                                       rb_RoleRefKind := ''Role'',
                                       rb_RoleRefName := BackupRoleName r cluster,
                                       rb_Subjects :=
                                         [\<lparr>sub_Kind = ''ServiceAccount'',
                                           sub_Name = jcfg_ServiceAccountName (bp_JobConfig bp),
                                           sub_Namespace = ns\<rparr>]\<rparr>
                                in SetControllerReference (clusterOwner r cluster) ns rolebinding)
                             w of
                        (w2, Inl err) \<Rightarrow> (w2, Some err)
                      | (w2, Inr result) \<Rightarrow> (w2, None))))))"


definition restoreContainer :: "env \<Rightarrow> MySQLCluster \<Rightarrow> RestoreSpec \<Rightarrow> JobContainer" where
  "restoreContainer r cluster restore =
     (let jc = rs_JobConfig restore;
          args = [k_RestoreSubcommand r, ''--threads='' @ showInt (jcfg_Threads jc)];
          args = args @ bucketArgs (jcfg_BucketConfig jc);
          args = args @ [rs_SourceNamespace restore, rs_SourceName restore];
          args = args @ [mc_Namespace cluster, mc_Name cluster];
          args = args @ [formatBackupTime r (rs_RestorePoint restore)];
          env = [EnvSecretKeyRef ''MYSQL_PASSWORD'' (UserSecretName cluster) (k_AdminPasswordKey r)];
          res = jobResources r jc
      in \<lparr>jc_Name = ''restore'', jc_Image = BackupImage r, jc_Args = args,
          jc_EnvFrom = [] @ jcfg_EnvFrom jc, jc_Env = env @ jcfg_Env jc,
          jc_VolumeMounts = [(''work'', ''/work'')], jc_ReadOnlyRootFilesystem = Some True,
          jc_Requests = fst res, jc_Limits = snd res\<rparr>)"

definition restoreRoleRules :: "env \<Rightarrow> MySQLCluster \<Rightarrow> PolicyRule list" where
  "restoreRoleRules r cluster =
     [\<lparr>pr_APIGroups = [k_Group r], pr_Resources = [''mysqlclusters'', ''mysqlclusters/status''],
       pr_Verbs = [''get'', ''update''], pr_ResourceNames = [mc_Name cluster]\<rparr>,
      \<lparr>pr_APIGroups = [[]], pr_Resources = [''pods''], pr_Verbs = [''get''], pr_ResourceNames = []\<rparr>,
      \<lparr>pr_APIGroups = [[]], pr_Resources = [''events''], pr_Verbs = [''create''],
       pr_ResourceNames = []\<rparr>]"

text \<open>
  The restore Job as an owner. The UID that the API server gives to a Job on creation is
  not modelled: a Job created in this reconcile has the UID it was built with.
\<close>

definition jobOwner :: "string \<Rightarrow> string \<Rightarrow> Job \<Rightarrow> Owner" where
  "jobOwner ns name job =
     \<lparr>own_APIVersion = ''batch/v1'', own_Kind = ''Job'', own_Namespace = ns, own_Name = name,
      own_UID = job_UID job\<rparr>"

text \<open>The second half of \<^verbatim>\<open>reconcileV1RestoreJob\<close>: the Role and the RoleBinding owned by the Job.\<close>

definition reconcileV1RestoreRBAC ::
  "env \<Rightarrow> MySQLCluster \<Rightarrow> RestoreSpec \<Rightarrow> Job \<Rightarrow> world \<Rightarrow> world \<times> error option" where
  "reconcileV1RestoreRBAC r cluster restore job w =
     (let ns = mc_Namespace cluster;
          owner = jobOwner ns (RestoreJobName cluster) job in
      orReturn
        (case CreateOrUpdate roles roles_update (ns, RestoreRoleName r cluster) newRole
                (\<lambda>role.
                   let role = role
                         \<lparr>m_Labels := mergeMap (m_Labels role) (labelSetForJob r cluster),
                          role_Rules := restoreRoleRules r cluster\<rparr>
                   in SetControllerReference owner ns role)
                w of
           (w1, Inl err) \<Rightarrow> (w1, Some err)
         | (w1, Inr result) \<Rightarrow> (w1, None))
        (\<lambda>w.
          (case CreateOrUpdate roleBindings roleBindings_update (ns, RestoreRoleName r cluster)
                  newRoleBinding
                  (\<lambda>rolebinding.
                     let rolebinding = rolebinding
                           \<lparr>m_Labels := mergeMap (m_Labels rolebinding) (labelSetForJob r cluster),
                            rb_RoleRefAPIGroup := ''rbac.authorization.k8s.io'',
                            rb_RoleRefKind := ''Role'',
                            rb_RoleRefName := RestoreRoleName r cluster,
                            rb_Subjects :=
                              [\<lparr>sub_Kind = ''ServiceAccount'',
                                sub_Name = jcfg_ServiceAccountName (rs_JobConfig restore),
                                sub_Namespace = ns\<rparr>]\<rparr>
                     in SetControllerReference owner ns rolebinding)
                  w of
             (w1, Inl err) \<Rightarrow> (w1, Some err)
           | (w1, Inr result) \<Rightarrow> (w1, None))))"

definition reconcileV1RestoreJob :: "env \<Rightarrow> MySQLCluster \<Rightarrow> world \<Rightarrow> world \<times> error option" where
  "reconcileV1RestoreJob r cluster w =
     (case spec_Restore (mc_Spec cluster) of
        None \<Rightarrow> (w, None)
      | Some restore \<Rightarrow>
          if status_RestoredTime (mc_Status cluster) \<noteq> None then (w, None)
          else
            (let ns = mc_Namespace cluster in
             case apiGet jobs (ns, RestoreJobName cluster) w of
               (w1, Inl err) \<Rightarrow>
                 if \<not> IsNotFound err then (w1, Some err)
                 else
                   (let job = newJob\<lparr>m_Labels := labelSetForJob r cluster\<rparr> in
                    case SetControllerReference (clusterOwner r cluster) ns job of
                      Inl err \<Rightarrow>
                        (w1, Some (Wrapped ''failed to set controller reference to restore Job'' err))
                    | Inr job \<Rightarrow>
                        (let jc = rs_JobConfig restore;
                             job = job
                               \<lparr>job_Spec :=
                                  \<lparr>js_ActiveDeadlineSeconds = None,
                                   js_BackoffLimit = Some 0,
                                   js_TemplateLabels = labelSetForJob r cluster,
                                   js_PodSpec =
                                     \<lparr>jps_RestartPolicy = ''Never'',
                                      jps_ServiceAccountName = jcfg_ServiceAccountName jc,
                                      jps_Volumes = [(''work'', jcfg_WorkVolume jc)],
                                      jps_Containers = [restoreContainer r cluster restore]\<rparr>\<rparr>\<rparr>
                         in orReturn (apiCreate jobs jobs_update (ns, RestoreJobName cluster) job w1)
                              (reconcileV1RestoreRBAC r cluster restore job)))
             | (w1, Inr job) \<Rightarrow> reconcileV1RestoreRBAC r cluster restore job w1))"

subsection \<open>Finalization\<close>

definition finalizeV1 :: "env \<Rightarrow> MySQLCluster \<Rightarrow> world \<Rightarrow> world \<times> error option" where
  "finalizeV1 r cluster w =
     (let secretName = ControllerSecretName cluster;
          certName = CertificateName cluster in
      orReturn
        (case apiDelete secrets secrets_update (SystemNamespace r, secretName) w of
           (w1, Some err) \<Rightarrow>
             if \<not> IsNotFound err
             then (w1, Some (Wrapped (''failed to delete controller secret '' @ secretName) err))
             else (w1, None)
         | (w1, None) \<Rightarrow> (w1, None))
        (\<lambda>w.
          (case apiDelete certificates certificates_update (SystemNamespace r, certName) w of
             (w1, Some err) \<Rightarrow>
               if \<not> IsNotFound err
               then (w1, Some (Wrapped (''failed to delete certificate '' @ certName) err))
               else (w1, None)
           | (w1, None) \<Rightarrow> (w1, None))))"


subsection \<open>The memory of the mysqld container in the v1alpha1 controller\<close>

text \<open>
  The older controller for \<^verbatim>\<open>mocov1alpha1.MySQLCluster\<close> reads the pod template as a list of
  \<^verbatim>\<open>corev1.Container\<close>: the name is a plain string and the two resource lists are maps, a
  nil map having no key.
\<close>

record CoreContainer =
  cc_Name :: string
  cc_Requests :: ResourceList
  cc_Limits :: ResourceList

definition mysqldContainerName :: string where
  "mysqldContainerName = ''mysqld''"

fun getMysqldContainerRequests :: "CoreContainer list \<Rightarrow> string \<Rightarrow> Quantity option" where
  "getMysqldContainerRequests [] resourceName = None"
| "getMysqldContainerRequests (c # cs) resourceName =
     (if cc_Name c \<noteq> mysqldContainerName then getMysqldContainerRequests cs resourceName
      else
        (case cc_Requests c resourceName of
           Some r \<Rightarrow> Some r
         | None \<Rightarrow>
             (case cc_Limits c resourceName of
                Some r \<Rightarrow> Some r
              | None \<Rightarrow> None)))"

text \<open>
  What \<^verbatim>\<open>createOrUpdateConfigMap\<close> does with that quantity: the value of
  \<^verbatim>\<open>innodb_buffer_pool_size\<close> that it merges into the \<^verbatim>\<open>mysqld\<close> section, if any.
\<close>

definition innodb_buffer_pool_size :: "CoreContainer list \<Rightarrow> string option" where
  "innodb_buffer_pool_size containers =
     (case getMysqldContainerRequests containers ResourceMemory of
        None \<Rightarrow> None
      | Some mem \<Rightarrow>
          if q_Value mem > 128 * 2 ^ 20
          then (let bufferSize = goDiv (q_Value mem) 10 * 7
                in Some (showInt (bufferSize div 2 ^ 20) @ ''M''))
          else None)"

text \<open>
  The number of bytes that this generator works from: \<^verbatim>\<open>mem.Value()\<close> when \<^verbatim>\<open>mem\<close> is not
  nil, and nothing to scale the buffer pool by otherwise.
\<close>

definition memValue :: "CoreContainer list \<Rightarrow> int" where
  "memValue containers =
     (case getMysqldContainerRequests containers ResourceMemory of
        None \<Rightarrow> 0
      | Some mem \<Rightarrow> q_Value mem)"

text \<open>
  The memory budget in the words of the specification, for the first container named
  \<^verbatim>\<open>mysqld\<close> of such a list.
\<close>

definition spec_memoryBudgetOf :: "Quantity option \<Rightarrow> Quantity option \<Rightarrow> int" where
  "spec_memoryBudgetOf requests limits =
     (if setAndNonZero requests then q_Value (the requests)
      else if setAndNonZero limits then q_Value (the limits)
      else 0)"

definition spec_memoryBudgetCore :: "CoreContainer list \<Rightarrow> int" where
  "spec_memoryBudgetCore containers =
     (case find (\<lambda>c. cc_Name c = mysqldContainerName) containers of
        None \<Rightarrow> 0
      | Some c \<Rightarrow> spec_memoryBudgetOf (cc_Requests c ResourceMemory) (cc_Limits c ResourceMemory))"

text \<open>A mysqld container that requests no memory at all and is limited to 256 MiB.\<close>

definition zeroRequestContainer :: CoreContainer where
  "zeroRequestContainer =
     \<lparr>cc_Name = ''mysqld'',
      cc_Requests = [ResourceMemory \<mapsto> \<lparr>q_IsZero = True, q_Value = 0\<rparr>],
      cc_Limits = [ResourceMemory \<mapsto> \<lparr>q_IsZero = False, q_Value = 268435456\<rparr>]\<rparr>"

subsection \<open>Example inputs\<close>

definition exampleEnv :: env where
  "exampleEnv =
     \<lparr>SystemNamespace = ''moco-system'',
      BackupImage = ''moco-backup:latest'',
      debugController = False,
      noJobResource = False,
      k_ClusterAPIVersion = ''moco.cybozu.com/v1beta2'',
      k_ClusterKind = ''MySQLCluster'',
      k_Group = ''moco.cybozu.com'',
      k_LabelAppName = ''app.kubernetes.io/name'',
      k_AppNameMySQL = ''mysql'',
      k_AppNameBackup = ''mysql-backup'',
      k_LabelAppInstance = ''app.kubernetes.io/instance'',
      k_LabelAppCreatedBy = ''app.kubernetes.io/created-by'',
      k_AppCreator = ''moco'',
      k_LabelAppNamespace = ''app.kubernetes.io/instance-namespace'',
      k_LabelMocoRole = ''moco.cybozu.com/role'',
      k_RolePrimary = ''primary'',
      k_RoleReplica = ''replica'',
      k_MySQLConfName = ''my.cnf'',
      k_FluentBitConfigName = ''fluent-bit.conf'',
      k_SlowLogPath = ''/var/log/mysql/mysql.slow'',
      k_BackupSubcommand = ''backup'',
      k_RestoreSubcommand = ''restore'',
      k_BackupPasswordKey = ''BACKUP_PASSWORD'',
      k_AdminPasswordKey = ''ADMIN_PASSWORD'',
      k_TmpVolumeName = ''tmp'',
      k_RunVolumeName = ''run'',
      k_VarLogVolumeName = ''var-log'',
      k_MySQLInitConfVolumeName = ''mysql-conf-d'',
      k_MySQLConfVolumeName = ''mysql-conf'',
      k_MySQLConfSecretVolumeName = ''my-cnf-secret'',
      k_GRPCSecretVolumeName = ''grpc-cert'',
      k_SlowQueryLogAgentConfigVolumeName = ''slow-fluent-bit-config'',
      GRPCSecretName = (\<lambda>c. ''moco-agent-grpc-'' @ mc_Name c),
      SlowQueryLogAgentConfigMapName = (\<lambda>c. ''moco-slow-log-agent-config-'' @ mc_Name c),
      BackupRoleName = (\<lambda>c. ''moco-backup-'' @ mc_Name c),
      RestoreRoleName = (\<lambda>c. ''moco-restore-'' @ mc_Name c),
      formatBackupTime = showInt,
      Generate = (\<lambda>userConf totalMem. ''[mysqld]'' @ showInt totalMem),
      NewMySQLPasswordFromSecret = (\<lambda>s. Inr (s_Data s)),
      NewMySQLPassword = Inr [''ADMIN_PASSWORD'' \<mapsto> ''secret''],
      ToSecret =
        (\<lambda>p. \<lparr>m_Labels = Map.empty, m_Annotations = Map.empty, m_OwnerReferences = [], s_Data = p\<rparr>),
      ToMyCnfSecret =
        (\<lambda>p. \<lparr>m_Labels = Map.empty, m_Annotations = Map.empty, m_OwnerReferences = [], s_Data = p\<rparr>),
      reconcileV1Certificate = (\<lambda>c w. (w, None)),
      reconcileV1GRPCSecret = (\<lambda>c w. (w, None)),
      updateContainerWithSupplements = (\<lambda>c cs. c),
      ToCoreV1 = (\<lambda>p. p),
      makeV1MySQLDContainer =
        (\<lambda>c. Inr \<lparr>c_Name = Some ''mysqld'', c_Image = Some ''mysql:8'', c_Resources = None,
                   c_Rest = []\<rparr>),
      makeV1AgentContainer =
        (\<lambda>c. \<lparr>c_Name = Some ''agent'', c_Image = Some ''moco-agent'', c_Resources = None,
               c_Rest = []\<rparr>),
      makeV1SlowQueryLogContainer =
        (\<lambda>s f. \<lparr>c_Name = Some ''slow-log'', c_Image = Some ''fluent-bit'', c_Resources = None,
                 c_Rest = []\<rparr>),
      makeV1ExporterContainer =
        (\<lambda>cs. \<lparr>c_Name = Some ''mysqld-exporter'', c_Image = Some ''exporter'', c_Resources = None,
                c_Rest = []\<rparr>),
      makeV1OptionalContainers = (\<lambda>c. []),
      makeV1InitContainer = (\<lambda>c image. [])\<rparr>"

definition examplePodSpec :: "Container list \<Rightarrow> PodSpecAC" where
  "examplePodSpec containers =
     \<lparr>ps_ServiceAccountName = None, ps_TerminationGracePeriodSeconds = None, ps_Volumes = [],
      ps_Containers = containers, ps_InitContainers = [], ps_Rest = []\<rparr>"

definition mysqldOf256Mi :: Container where
  "mysqldOf256Mi =
     \<lparr>c_Name = Some ''mysqld'', c_Image = Some ''mysql:8'',
      c_Resources =
        Some \<lparr>rr_Limits = None,
              rr_Requests = Some [ResourceMemory \<mapsto> \<lparr>q_IsZero = False, q_Value = 268435456\<rparr>]\<rparr>,
      c_Rest = []\<rparr>"

text \<open>A cluster \<^verbatim>\<open>default/c\<close> with the given number of replicas and containers, never reconciled.\<close>

definition exampleCluster :: "int \<Rightarrow> Container list \<Rightarrow> MySQLCluster" where
  "exampleCluster replicas containers =
     \<lparr>mc_Namespace = ''default'', mc_Name = ''c'', mc_UID = ''uid-c'', mc_Generation = 1,
      mc_DeletionTimestamp = None, mc_Finalizers = [MySQLClusterFinalizer],
      mc_Spec =
        \<lparr>spec_Replicas = replicas,
         spec_PodTemplate =
           \<lparr>pt_Annotations = Map.empty, pt_Labels = Map.empty, pt_Spec = examplePodSpec containers\<rparr>,
         spec_VolumeClaimTemplates = [],
         spec_PrimaryServiceTemplate = None,
         spec_ReplicaServiceTemplate = None,
         spec_MySQLConfigMapName = None,
         spec_Collectors = [],
         spec_BackupPolicyName = None,
         spec_Restore = None,
         spec_DisableSlowQueryLogContainer = False\<rparr>,
      mc_Status =
        \<lparr>status_RestoredTime = None,
         status_ReconcileInfo = \<lparr>ri_Generation = 0, ri_ReconcileVersion = 0\<rparr>\<rparr>\<rparr>"

definition emptyWorld :: world where
  "emptyWorld =
     \<lparr>clusters = [], secrets = [], configMaps = [], serviceAccounts = [], services = [],
      statefulSets = [], pdbs = [], cronJobs = [], jobs = [], roles = [], roleBindings = [],
      backupPolicies = [], certificates = [], faults = [], managerCalls = []\<rparr>"


section \<open>Properties\<close>

text \<open>
  C9. \<open>bucketArgs\<close> returns \<^verbatim>\<open>--region=<r>\<close> only when the region is not empty, then
  \<^verbatim>\<open>--endpoint=<u>\<close> only when the endpoint URL is not empty, then \<^verbatim>\<open>--use-path-style\<close>
  only when path style is requested, in that order, and the bucket name is always the last
  element.
\<close>

theorem bucketArgs_shape:
  "bucketArgs bc =
     (if bc_Region bc \<noteq> '''' then [''--region='' @ bc_Region bc] else []) @
     (if bc_EndpointURL bc \<noteq> '''' then [''--endpoint='' @ bc_EndpointURL bc] else []) @
     (if bc_UsePathStyle bc then [''--use-path-style''] else []) @
     [bc_BucketName bc]
   \<and> last (bucketArgs bc) = bc_BucketName bc"
  by (simp add: bucketArgs_def)


end
